theory Spec2Isabelle
  imports Main "HOL-Library.AList"
begin

section \<open>JavaScript values\<close>

text \<open>
  The handlers of the site receive parsed JSON, read properties of it, call string
  methods on them and hand documents to the MongoDB driver.  A value is one of the
  JavaScript values that can occur there.  Numbers are modelled by the integers plus
  \<open>NaN\<close> (what \<open>parseInt\<close> gives on a text without digits); a string is a list of code
  units below 256; a \<open>Date\<close> object carries its time value in milliseconds, \<open>None\<close> being
  the \<open>Invalid Date\<close>; an \<open>ObjectId\<close> is identified with a natural number.
\<close>

datatype jsval =
    JUndefined
  | JNull
  | JBool bool
  | JNum int
  | JNaN
  | JStr string
  | JArr "jsval list"
  | JObj "(string \<times> jsval) list"
  | JDate "int option"
  | JOid nat

type_synonym doc = "(string \<times> jsval) list"

text \<open>What \<open>throw\<close> carries: \<open>new Error(msg)\<close> of the handlers, a \<open>TypeError\<close> of the
  language, the \<open>BSONError\<close> of the \<open>ObjectId\<close> constructor, an error of the driver.\<close>

datatype error =
    Error string
  | TypeError string
  | BSONError string
  | MongoError string


definition bindE :: "error + 'a \<Rightarrow> ('a \<Rightarrow> error + 'b) \<Rightarrow> error + 'b" where
  "bindE r f = (case r of Inl e \<Rightarrow> Inl e | Inr x \<Rightarrow> f x)"

text \<open>Truthiness, as \<open>!x\<close>, \<open>x && y\<close>, \<open>x || y\<close> and \<open>if (x)\<close> read it.\<close>

fun truthy :: "jsval \<Rightarrow> bool" where
  "truthy JUndefined = False"
| "truthy JNull = False"
| "truthy (JBool b) = b"
| "truthy (JNum n) = (n \<noteq> 0)"
| "truthy JNaN = False"
| "truthy (JStr s) = (s \<noteq> [])"
| "truthy (JArr xs) = True"
| "truthy (JObj kvs) = True"
| "truthy (JDate d) = True"
| "truthy (JOid n) = True"

definition nullish :: "jsval \<Rightarrow> bool" where
  "nullish v = (v = JUndefined \<or> v = JNull)"

text \<open>\<open>x || null\<close>.\<close>

definition or_null :: "jsval \<Rightarrow> jsval" where
  "or_null v = (if truthy v then v else JNull)"

text \<open>Reading a property.  An object is the list of its own properties; a property that
  is not there reads as \<open>undefined\<close>.  None of the names the handlers read is a built-in
  property of a string, a number, a boolean or an array.\<close>

definition fld :: "doc \<Rightarrow> string \<Rightarrow> jsval" where
  "fld d k = (case map_of d k of Some v \<Rightarrow> v | None \<Rightarrow> JUndefined)"

definition getprop :: "jsval \<Rightarrow> string \<Rightarrow> jsval" where
  "getprop v k = (case v of JObj kvs \<Rightarrow> fld kvs k | _ \<Rightarrow> JUndefined)"

subsection \<open>Strings\<close>

text \<open>White space as \<open>String.prototype.trim\<close> and the regular expression class \<open>\s\<close> know
  it, among the code units below 256: tab, line feed, vertical tab, form feed, carriage
  return, space and the no-break space.\<close>

definition is_ws :: "char \<Rightarrow> bool" where
  "is_ws c = (let n = (of_char c :: nat) in (9 \<le> n \<and> n \<le> 13) \<or> n = 32 \<or> n = 160)"

definition trim :: "string \<Rightarrow> string" where
  "trim s = rev (dropWhile is_ws (rev (dropWhile is_ws s)))"

definition is_upper :: "char \<Rightarrow> bool" where
  "is_upper c = (let n = (of_char c :: nat) in
     (65 \<le> n \<and> n \<le> 90) \<or> (192 \<le> n \<and> n \<le> 222 \<and> n \<noteq> 215))"

definition lower_char :: "char \<Rightarrow> char" where
  "lower_char c = (if is_upper c then char_of (of_char c + (32::nat)) else c)"

definition toLowerCase :: "string \<Rightarrow> string" where
  "toLowerCase s = map lower_char s"

text \<open>A method call on a value: a value that is no string has no \<open>trim\<close> and no
  \<open>toLowerCase\<close>, and the call throws.\<close>

definition js_trim :: "jsval \<Rightarrow> error + jsval" where
  "js_trim v = (case v of
     JStr s \<Rightarrow> Inr (JStr (trim s))
   | JUndefined \<Rightarrow> Inl (TypeError ''Cannot read properties of undefined (reading 'trim')'')
   | JNull \<Rightarrow> Inl (TypeError ''Cannot read properties of null (reading 'trim')'')
   | _ \<Rightarrow> Inl (TypeError ''trim is not a function''))"

definition js_toLowerCase :: "jsval \<Rightarrow> error + jsval" where
  "js_toLowerCase v = (case v of
     JStr s \<Rightarrow> Inr (JStr (toLowerCase s))
   | JUndefined \<Rightarrow> Inl (TypeError ''Cannot read properties of undefined (reading 'toLowerCase')'')
   | JNull \<Rightarrow> Inl (TypeError ''Cannot read properties of null (reading 'toLowerCase')'')
   | _ \<Rightarrow> Inl (TypeError ''toLowerCase is not a function''))"

text \<open>\<open>x?.trim()\<close>.\<close>

definition opt_trim :: "jsval \<Rightarrow> error + jsval" where
  "opt_trim v = (if nullish v then Inr JUndefined else js_trim v)"

text \<open>\<open>String(x)\<close>, as a regular expression's \<open>test\<close>, a template literal and the \<open>Date\<close>
  constructor apply it to a value that is no string.  A \<open>Date\<close> and an \<open>ObjectId\<close> do not
  occur in a parsed request body; the texts given for them stand in for the real ones
  (that of a date always has a space in it, that of an \<open>ObjectId\<close> is made of digits).\<close>

definition digit_char :: "nat \<Rightarrow> char" where
  "digit_char d = char_of (of_char CHR ''0'' + d)"

fun decimal_onto :: "nat \<Rightarrow> string \<Rightarrow> string" where
  "decimal_onto n acc =
     (if n div 10 = 0 then digit_char n # acc
      else decimal_onto (n div 10) (digit_char (n mod 10) # acc))"

definition decimal :: "nat \<Rightarrow> string" where
  "decimal n = decimal_onto n []"

fun join_comma :: "string list \<Rightarrow> string" where
  "join_comma [] = []"
| "join_comma [s] = s"
| "join_comma (s # t # ss) = s @ '','' @ join_comma (t # ss)"

fun js_ToString :: "jsval \<Rightarrow> string" where
  "js_ToString JUndefined = ''undefined''"
| "js_ToString JNull = ''null''"
| "js_ToString (JBool b) = (if b then ''true'' else ''false'')"
| "js_ToString (JNum n) =
     (if n < 0 then CHR ''-'' # decimal (nat (- n)) else decimal (nat n))"
| "js_ToString JNaN = ''NaN''"
| "js_ToString (JStr s) = s"
| "js_ToString (JArr xs) =
     join_comma (map (\<lambda>x. if x = JUndefined \<or> x = JNull then [] else js_ToString x) xs)"
| "js_ToString (JObj kvs) = ''[object Object]''"
| "js_ToString (JDate d) = ''Invalid Date''"
| "js_ToString (JOid n) = decimal n"




section \<open>The process and what surrounds it\<close>

text \<open>
  What the code reads and cannot change: the environment variables, the clock, and the
  library functions whose results it only uses (whether a connection string is accepted
  and a server answers, which values the \<open>ObjectId\<close> constructor accepts and the ids it
  generates, what \<open>Date.parse\<close>, \<open>JSON.parse\<close> and the conversion of a text to a number
  return; \<open>None\<close> is a thrown error for the constructors and \<open>JSON.parse\<close>, and \<open>NaN\<close> for
  the other two).  The \<open>n\<close>-th reading of the clock gives \<open>clock n\<close>.
\<close>

record env =
  DB_TYPE :: "string option"
  MONGODB_URI :: "string option"
  MONGO_URI :: "string option"
  MONGODB_DB :: "string option"
  NODE_ENV :: "string option"
  mongoClientOk :: "string option \<Rightarrow> bool"
  connectOk :: "nat \<Rightarrow> bool"
  ObjectId :: "jsval \<Rightarrow> nat option"
  generateId :: "nat \<Rightarrow> nat"
  Date_parse :: "string \<Rightarrow> int option"
  Number_parse :: "string \<Rightarrow> int option"
  JSON_parse :: "string \<Rightarrow> jsval option"
  clock :: "nat \<Rightarrow> int"
  stack_of :: "error \<Rightarrow> string"

text \<open>What \<open>connectToMongoDB\<close> resolves to: \<open>{ client, db }\<close>.\<close>

record conn =
  client :: nat
  db :: string

text \<open>
  The state of the process and of the database: \<open>global._mongo\<close> (shared by the two
  modules that cache a connection), the \<open>client\<close> variable of the third module, the
  number of \<open>MongoClient\<close>s constructed so far, the three collections, how many ids
  have been generated and how often the clock has been read.  A promise is modelled
  by what it settles to.
\<close>

record world =
  cached_conn :: "conn option"
  cached_promise :: "(error + conn) option"
  client_000 :: "nat option"
  clients_created :: nat
  members :: "doc list"
  events :: "doc list"
  blogs :: "doc list"
  ids_generated :: nat
  clock_reads :: nat

type_synonym 'a io = "world \<Rightarrow> (error + 'a) \<times> world"

definition ret :: "'a \<Rightarrow> 'a io" where
  "ret x = (\<lambda>w. (Inr x, w))"

definition throw :: "error \<Rightarrow> 'a io" where
  "throw e = (\<lambda>w. (Inl e, w))"

definition lift :: "error + 'a \<Rightarrow> 'a io" where
  "lift r = (\<lambda>w. (r, w))"

definition bnd :: "'a io \<Rightarrow> ('a \<Rightarrow> 'b io) \<Rightarrow> 'b io" where
  "bnd m f = (\<lambda>w. case m w of (Inl e, w') \<Rightarrow> (Inl e, w') | (Inr x, w') \<Rightarrow> f x w')"

text \<open>\<open>process.env.X || default\<close>.\<close>

definition env_or :: "string option \<Rightarrow> string \<Rightarrow> string" where
  "env_or v dflt = (case v of None \<Rightarrow> dflt | Some s \<Rightarrow> if s = [] then dflt else s)"

text \<open>\<open>new Date()\<close> reads the clock.\<close>

definition Date_now :: "env \<Rightarrow> int io" where
  "Date_now env = (\<lambda>w. (Inr (clock env (clock_reads w)), w\<lparr>clock_reads := Suc (clock_reads w)\<rparr>))"

definition new_Date :: "env \<Rightarrow> jsval io" where
  "new_Date env = bnd (Date_now env) (\<lambda>t. ret (JDate (Some t)))"

section \<open>The connection cache\<close>

text \<open>\<open>client.connect().then(client => ({ client, db: client.db(...) }))\<close>, settled.\<close>

definition client_connect :: "env \<Rightarrow> nat \<Rightarrow> error + conn" where
  "client_connect env n =
     (if connectOk env n
      then Inr \<lparr>client = n, db = env_or (MONGODB_DB env) ''atomsmiths''\<rparr>
      else Inl (MongoError ''Server selection timed out''))"

definition connectToMongoDB :: "env \<Rightarrow> string option \<Rightarrow> conn io" where
  "connectToMongoDB env uri = (\<lambda>w.
     case cached_conn w of
       Some c \<Rightarrow> (Inr c, w)
     | None \<Rightarrow>
        (case (case cached_promise w of
                 Some p \<Rightarrow> Inr (p, w)
               | None \<Rightarrow>
                   if mongoClientOk env uri
                   then (let p = client_connect env (clients_created w)
                         in Inr (p, w\<lparr>cached_promise := Some p,
                                      clients_created := Suc (clients_created w)\<rparr>))
                   else Inl (MongoError ''Invalid connection string'')) of
           Inl e \<Rightarrow> (Inl e, w)
         | Inr (p, w1) \<Rightarrow>
            (case p of
               Inl e \<Rightarrow> (Inl e, w1)
             | Inr c \<Rightarrow> (Inr c, w1\<lparr>cached_conn := Some c\<rparr>))))"

text \<open>\<open>connectToDatabase\<close> of \<open>api/join.js\<close>: the same function but for the pool options,
  on the same \<open>global._mongo\<close>.\<close>

definition connectToDatabase :: "env \<Rightarrow> string option \<Rightarrow> conn io" where
  "connectToDatabase env uri = (\<lambda>w.
     case cached_conn w of
       Some c \<Rightarrow> (Inr c, w)
     | None \<Rightarrow>
        (case (case cached_promise w of
                 Some p \<Rightarrow> Inr (p, w)
               | None \<Rightarrow>
                   if mongoClientOk env uri
                   then (let p = client_connect env (clients_created w)
                         in Inr (p, w\<lparr>cached_promise := Some p,
                                      clients_created := Suc (clients_created w)\<rparr>))
                   else Inl (MongoError ''Invalid connection string'')) of
           Inl e \<Rightarrow> (Inl e, w)
         | Inr (p, w1) \<Rightarrow>
            (case p of
               Inl e \<Rightarrow> (Inl e, w1)
             | Inr c \<Rightarrow> (Inr c, w1\<lparr>cached_conn := Some c\<rparr>))))"

text \<open>A sequence of calls, one after the other, each by one of the two modules and with
  a connection string of its own; the results are collected in order.\<close>

datatype caller = Api | Join

definition connect_call :: "env \<Rightarrow> caller \<times> string option \<Rightarrow> conn io" where
  "connect_call env c =
     (case c of (Api, uri) \<Rightarrow> connectToMongoDB env uri | (Join, uri) \<Rightarrow> connectToDatabase env uri)"

fun connect_calls :: "env \<Rightarrow> (caller \<times> string option) list \<Rightarrow> world \<Rightarrow> (error + conn) list \<times> world" where
  "connect_calls env [] w = ([], w)"
| "connect_calls env (c # cs) w =
     (case connect_call env c w of (r, w1) \<Rightarrow>
        (case connect_calls env cs w1 of (rs, w2) \<Rightarrow> (r # rs, w2)))"

text \<open>A process that has not connected yet.\<close>

definition fresh_cache :: "world \<Rightarrow> bool" where
  "fresh_cache w = (cached_conn w = None \<and> cached_promise w = None)"

section \<open>The collections\<close>

text \<open>
  A collection is the list of its documents, in the order of insertion.  The store keeps
  the values it is given (the BSON encoding of the driver is not modelled), and the one
  database with its three collections stands for whatever the connection strings and the
  database name point to.
\<close>

datatype collection = Members | Events | Blogs

definition get_coll :: "collection \<Rightarrow> world \<Rightarrow> doc list" where
  "get_coll c w = (case c of Members \<Rightarrow> members w | Events \<Rightarrow> events w | Blogs \<Rightarrow> blogs w)"

definition put_coll :: "collection \<Rightarrow> doc list \<Rightarrow> world \<Rightarrow> world" where
  "put_coll c ds w =
     (case c of Members \<Rightarrow> w\<lparr>members := ds\<rparr> | Events \<Rightarrow> w\<lparr>events := ds\<rparr> | Blogs \<Rightarrow> w\<lparr>blogs := ds\<rparr>)"

text \<open>The query \<open>{ field: v }\<close> on a stored value: the value is \<open>v\<close>, or it is an array
  with \<open>v\<close> among its elements.  An \<open>_id\<close> is never an array, so \<open>{ _id: v }\<close> is equality.\<close>

definition eq_match :: "jsval \<Rightarrow> jsval \<Rightarrow> bool" where
  "eq_match stored v = (stored = v \<or> (case stored of JArr xs \<Rightarrow> v \<in> set xs | _ \<Rightarrow> False))"

definition id_is :: "nat \<Rightarrow> doc \<Rightarrow> bool" where
  "id_is oid d = (fld d ''_id'' = JOid oid)"

definition findOne :: "collection \<Rightarrow> (doc \<Rightarrow> bool) \<Rightarrow> doc option io" where
  "findOne c p = (\<lambda>w. (Inr (find p (get_coll c w)), w))"

text \<open>\<open>insertOne\<close>: a document without an \<open>_id\<close> gets a generated one; an \<open>_id\<close> that
  the collection already holds, or one that is an array, is refused.  What is not an
  object is no document.  The result is the document as stored.\<close>

definition insertOne :: "env \<Rightarrow> collection \<Rightarrow> jsval \<Rightarrow> doc io" where
  "insertOne env c v = (\<lambda>w.
     case v of
       JObj d \<Rightarrow>
         (let generated = nullish (fld d ''_id'');
              i = (if generated then JOid (generateId env (ids_generated w)) else fld d ''_id'');
              w1 = (if generated then w\<lparr>ids_generated := Suc (ids_generated w)\<rparr> else w);
              stored = AList.update ''_id'' i d
          in if (case i of JArr xs \<Rightarrow> True | _ \<Rightarrow> False)
             then (Inl (MongoError ''The _id field cannot be an array''), w1)
             else if list_ex (\<lambda>x. fld x ''_id'' = i) (get_coll c w1)
             then (Inl (MongoError ''E11000 duplicate key error''), w1)
             else (Inr stored, put_coll c (get_coll c w1 @ [stored]) w1))
     | _ \<Rightarrow> (Inl (MongoError ''document must be an object''), w))"

fun remove_first :: "(doc \<Rightarrow> bool) \<Rightarrow> doc list \<Rightarrow> nat \<times> doc list" where
  "remove_first p [] = (0, [])"
| "remove_first p (d # ds) =
     (if p d then (1, ds) else (case remove_first p ds of (n, r) \<Rightarrow> (n, d # r)))"

text \<open>\<open>deleteOne\<close> gives its \<open>deletedCount\<close>.\<close>

definition deleteOne :: "collection \<Rightarrow> (doc \<Rightarrow> bool) \<Rightarrow> nat io" where
  "deleteOne c p = (\<lambda>w.
     case remove_first p (get_coll c w) of (n, r) \<Rightarrow> (Inr n, put_coll c r w))"

definition deleteMany :: "collection \<Rightarrow> (doc \<Rightarrow> bool) \<Rightarrow> nat io" where
  "deleteMany c p = (\<lambda>w.
     (Inr (length (filter p (get_coll c w))), put_coll c (filter (\<lambda>d. \<not> p d) (get_coll c w)) w))"

text \<open>\<open>{ $set: updateFields }\<close> on a document.\<close>

fun set_fields :: "doc \<Rightarrow> doc \<Rightarrow> doc" where
  "set_fields [] d = d"
| "set_fields ((k, v) # kvs) d = set_fields kvs (AList.update k v d)"

fun update_first :: "(doc \<Rightarrow> bool) \<Rightarrow> (doc \<Rightarrow> doc) \<Rightarrow> doc list \<Rightarrow> doc option \<times> doc list" where
  "update_first p f [] = (None, [])"
| "update_first p f (d # ds) =
     (if p d then (Some (f d), f d # ds)
      else (case update_first p f ds of (r, ds') \<Rightarrow> (r, d # ds')))"

text \<open>\<open>findOneAndUpdate(filter, { $set: updateFields }, { returnDocument: 'after' })\<close> gives
  \<open>result.value\<close>: the document after the update, or \<open>null\<close> when none matched.\<close>

definition findOneAndUpdate :: "collection \<Rightarrow> (doc \<Rightarrow> bool) \<Rightarrow> doc \<Rightarrow> doc option io" where
  "findOneAndUpdate c p updateFields = (\<lambda>w.
     case update_first p (set_fields updateFields) (get_coll c w) of
       (r, ds) \<Rightarrow> (Inr r, put_coll c ds w))"

text \<open>\<open>new ObjectId(x)\<close> throws on what it does not accept.\<close>

definition new_ObjectId :: "env \<Rightarrow> jsval \<Rightarrow> error + nat" where
  "new_ObjectId env v =
     (case ObjectId env v of
        Some oid \<Rightarrow> Inr oid
      | None \<Rightarrow> Inl (BSONError ''input must be a 24 character hex string, 12 byte Uint8Array, or an integer''))"

subsection \<open>Dates\<close>

definition timeClip :: "int \<Rightarrow> int option" where
  "timeClip t = (if \<bar>t\<bar> \<le> 8640000000000000 then Some t else None)"

text \<open>\<open>new Date(x)\<close>, by the time value of the result.\<close>

definition js_Date :: "env \<Rightarrow> jsval \<Rightarrow> int option" where
  "js_Date env v =
     (case v of
        JUndefined \<Rightarrow> None
      | JNull \<Rightarrow> Some 0
      | JBool b \<Rightarrow> Some (if b then 1 else 0)
      | JNum n \<Rightarrow> timeClip n
      | JNaN \<Rightarrow> None
      | JStr s \<Rightarrow> Date_parse env s
      | JDate d \<Rightarrow> d
      | _ \<Rightarrow> Date_parse env (js_ToString v))"

text \<open>\<open>d <= now\<close> on a \<open>Date\<close> and a time: every comparison with \<open>NaN\<close> is false.\<close>

definition date_le :: "int option \<Rightarrow> int \<Rightarrow> bool" where
  "date_le d now = (case d of None \<Rightarrow> False | Some t \<Rightarrow> t \<le> now)"


section \<open>The database service\<close>

definition dbType :: "env \<Rightarrow> string" where
  "dbType env = env_or (DB_TYPE env) ''mongodb''"

definition not_enabled :: "jsval io" where
  "not_enabled = throw (Error ''MySQL implementation not enabled'')"

definition cannot_destructure :: "jsval \<Rightarrow> error" where
  "cannot_destructure v = TypeError (''Cannot destructure '' @ js_ToString v)"

subsection \<open>Members\<close>


text \<open>\<open>...(x && { key: f(x) })\<close>: nothing for a falsy \<open>x\<close>.\<close>

definition spread_if :: "jsval \<Rightarrow> string \<Rightarrow> (jsval \<Rightarrow> error + jsval) \<Rightarrow> error + doc" where
  "spread_if x key f = (if truthy x then bindE (f x) (\<lambda>y. Inr [(key, y)]) else Inr [])"

definition updateMember :: "env \<Rightarrow> jsval \<Rightarrow> jsval \<Rightarrow> jsval io" where
  "updateMember env memberId updateData =
     (if nullish updateData then throw (cannot_destructure updateData)
      else
       (let name = getprop updateData ''name'';
            email = getprop updateData ''email'';
            department = getprop updateData ''department'';
            year = getprop updateData ''year'';
            interests = getprop updateData ''interests''
        in
        if dbType env = ''mongodb'' then
          bnd (connectToMongoDB env (MONGODB_URI env)) (\<lambda>c.
          bnd (if truthy email then
                 bnd (lift (bindE (js_toLowerCase email) js_trim)) (\<lambda>email'.
                 bnd (lift (new_ObjectId env memberId)) (\<lambda>oid.
                 bnd (findOne Members (\<lambda>d. eq_match (fld d ''email'') email' \<and> \<not> id_is oid d))
                   (\<lambda>existingMember.
                 if existingMember \<noteq> None
                 then throw (Error ''Email already taken by another member'')
                 else ret ())))
               else ret ()) (\<lambda>_.
          bnd (lift (spread_if name ''name'' js_trim)) (\<lambda>f1.
          bnd (lift (spread_if email ''email'' (\<lambda>x. bindE (js_toLowerCase x) js_trim))) (\<lambda>f2.
          bnd (lift (spread_if department ''department'' js_trim)) (\<lambda>f3.
          bnd (lift (spread_if year ''year'' Inr)) (\<lambda>f4.
          bnd (lift (spread_if interests ''interests'' js_trim)) (\<lambda>f5.
          bnd (new_Date env) (\<lambda>updatedAt.
          bnd (lift (new_ObjectId env memberId)) (\<lambda>oid.
          bnd (findOneAndUpdate Members (id_is oid)
                 (f1 @ f2 @ f3 @ f4 @ f5 @ [(''updatedAt'', updatedAt)])) (\<lambda>result_value.
          case result_value of
            None \<Rightarrow> throw (Error ''Member not found'')
          | Some d \<Rightarrow> ret (JObj d)))))))))))
        else if dbType env = ''mysql'' then not_enabled
        else ret JUndefined))"


subsection \<open>Events\<close>

definition addEvent :: "env \<Rightarrow> jsval \<Rightarrow> jsval io" where
  "addEvent env eventData =
     (if nullish eventData then throw (cannot_destructure eventData)
      else
       (let title = getprop eventData ''title'';
            description = getprop eventData ''description'';
            eventDate = getprop eventData ''eventDate'';
            location = getprop eventData ''location''
        in
        if \<not> truthy title \<or> \<not> truthy eventDate
        then throw (Error ''Title and event date are required'')
        else
         (let eventDateObj = js_Date env eventDate in
          bnd (Date_now env) (\<lambda>now.
          if date_le eventDateObj now then throw (Error ''Event date must be in the future'')
          else if dbType env = ''mongodb'' then
            bnd (connectToMongoDB env (MONGODB_URI env)) (\<lambda>c.
            bnd (lift (js_trim title)) (\<lambda>title'.
            bnd (lift (opt_trim description)) (\<lambda>description'.
            bnd (lift (opt_trim location)) (\<lambda>location'.
            bnd (new_Date env) (\<lambda>createdAt.
            bnd (new_Date env) (\<lambda>updatedAt.
            bnd (insertOne env Events (JObj
                   [(''title'', title'),
                    (''description'', or_null description'),
                    (''eventDate'', JDate eventDateObj),
                    (''location'', or_null location'),
                    (''createdAt'', createdAt),
                    (''updatedAt'', updatedAt)])) (\<lambda>event.
            ret (JObj event))))))))
          else if dbType env = ''mysql'' then not_enabled
          else ret JUndefined))))"


subsection \<open>Blogs\<close>

definition addBlog :: "env \<Rightarrow> jsval \<Rightarrow> jsval io" where
  "addBlog env blogData =
     (if nullish blogData then throw (cannot_destructure blogData)
      else
       (let title = getprop blogData ''title'';
            content = getprop blogData ''content'';
            authorId = getprop blogData ''authorId''
        in
        if \<not> truthy title \<or> \<not> truthy content \<or> \<not> truthy authorId
        then throw (Error ''Title, content, and author ID are required'')
        else if dbType env = ''mongodb'' then
          bnd (connectToMongoDB env (MONGODB_URI env)) (\<lambda>c.
          bnd (lift (new_ObjectId env authorId)) (\<lambda>oid.
          bnd (findOne Members (id_is oid)) (\<lambda>found.
          case found of
            None \<Rightarrow> throw (Error ''Author not found'')
          | Some author \<Rightarrow>
              bnd (lift (js_trim title)) (\<lambda>title'.
              bnd (lift (js_trim content)) (\<lambda>content'.
              bnd (new_Date env) (\<lambda>createdAt.
              bnd (new_Date env) (\<lambda>updatedAt.
              bnd (insertOne env Blogs (JObj
                     [(''title'', title'),
                      (''content'', content'),
                      (''authorId'', authorId),
                      (''authorName'', fld author ''name''),
                      (''authorEmail'', fld author ''email''),
                      (''authorDepartment'', fld author ''department''),
                      (''createdAt'', createdAt),
                      (''updatedAt'', updatedAt)])) (\<lambda>blog.
              ret (JObj blog)))))))))
        else if dbType env = ''mysql'' then not_enabled
        else ret JUndefined))"

subsection \<open>Recent activity\<close>












section \<open>The request handlers\<close>







subsection \<open>The API endpoint\<close>








subsection \<open>The join form\<close>


subsection \<open>The plain insert\<close>



section \<open>A sample environment\<close>

text \<open>An environment and an empty database to run the functions on: a server that
  answers, a clock that starts at \<open>1700000000000\<close> and advances by a millisecond with
  every reading, an \<open>ObjectId\<close> constructor that accepts three texts of 24 hexadecimal
  digits, and a \<open>Date.parse\<close> that knows one date of 2020 and one of 2033.\<close>

definition sample_env :: env where
  "sample_env =
     \<lparr>DB_TYPE = None,
      MONGODB_URI = Some ''mongodb://localhost:27017'',
      MONGO_URI = Some ''mongodb://localhost:27017'',
      MONGODB_DB = None,
      NODE_ENV = None,
      mongoClientOk = (\<lambda>uri. uri \<noteq> None),
      connectOk = (\<lambda>n. True),
      ObjectId = (\<lambda>v. if v = JStr ''650000000000000000000001'' then Some 101
                       else if v = JStr ''650000000000000000000002'' then Some 102
                       else if v = JStr ''650000000000000000000021'' then Some 121
                       else None),
      generateId = (\<lambda>n. 1000 + n),
      Date_parse = (\<lambda>s. if s = ''2020-01-01T00:00:00Z'' then Some 1577836800000
                         else if s = ''2033-01-01T00:00:00Z'' then Some 1988150400000
                         else None),
      Number_parse = (\<lambda>s. None),
      JSON_parse = (\<lambda>s. None),
      clock = (\<lambda>n. 1700000000000 + int n),
      stack_of = (\<lambda>e. [])\<rparr>"

definition empty_world :: world where
  "empty_world =
     \<lparr>cached_conn = None, cached_promise = None, client_000 = None, clients_created = 0,
      members = [], events = [], blogs = [], ids_generated = 0, clock_reads = 0\<rparr>"

section \<open>Vocabulary of the claims\<close>






text \<open>The database answers: the call of \<open>connectToMongoDB\<close> that opens every method of the
  service returns a handle.\<close>

definition reachable :: "env \<Rightarrow> world \<Rightarrow> bool" where
  "reachable env w =
     (case fst (connectToMongoDB env (MONGODB_URI env) w) of Inr c \<Rightarrow> True | Inl e \<Rightarrow> False)"

text \<open>Sample documents: two members, a blog of each, and an event.\<close>

definition ann :: doc where
  "ann = [(''_id'', JOid 101), (''name'', JStr ''Ann''), (''email'', JStr ''ann@example.com''),
          (''department'', JStr ''Physics''), (''year'', JNum 2), (''interests'', JNull),
          (''joinedAt'', JDate (Some 1600000000000)), (''createdAt'', JDate (Some 1600000000000)),
          (''updatedAt'', JDate (Some 1600000000000))]"

definition bob :: doc where
  "bob = [(''_id'', JOid 102), (''name'', JStr ''Bob''), (''email'', JStr ''bob@example.com''),
          (''department'', JNull), (''year'', JNull), (''interests'', JNull),
          (''joinedAt'', JDate (Some 1600000005000)), (''createdAt'', JDate (Some 1600000005000)),
          (''updatedAt'', JDate (Some 1600000005000))]"

definition ann_blog :: doc where
  "ann_blog = [(''_id'', JOid 11), (''title'', JStr ''Atoms''), (''content'', JStr ''Small.''),
          (''authorId'', JStr ''650000000000000000000001''), (''authorName'', JStr ''Ann''),
          (''authorEmail'', JStr ''ann@example.com''), (''authorDepartment'', JStr ''Physics''),
          (''createdAt'', JDate (Some 1600000007000)), (''updatedAt'', JDate (Some 1600000007000))]"

definition bob_blog :: doc where
  "bob_blog = [(''_id'', JOid 12), (''title'', JStr ''Forge''), (''content'', JStr ''Hot.''),
          (''authorId'', JStr ''650000000000000000000002''), (''authorName'', JStr ''Bob''),
          (''authorEmail'', JStr ''bob@example.com''), (''authorDepartment'', JNull),
          (''createdAt'', JDate (Some 1600000008000)), (''updatedAt'', JDate (Some 1600000008000))]"

definition launch :: doc where
  "launch = [(''_id'', JOid 121), (''title'', JStr ''Launch''), (''description'', JNull),
          (''eventDate'', JDate (Some 1988150400000)), (''location'', JStr ''Hall''),
          (''createdAt'', JDate (Some 1600000009000)), (''updatedAt'', JDate (Some 1600000009000))]"

definition sample_world :: world where
  "sample_world = empty_world\<lparr>members := [ann, bob], blogs := [ann_blog, bob_blog], events := [launch]\<rparr>"

text \<open>The fields of a member that \<open>updateMember\<close> can set, the fields it may change for a
  given \<open>updateData\<close>, and the form in which a supplied value is stored.\<close>

definition member_fields :: "string list" where
  "member_fields = [''name'', ''email'', ''department'', ''year'', ''interests'']"

definition may_change :: "jsval \<Rightarrow> string \<Rightarrow> bool" where
  "may_change updateData k =
     (k = ''updatedAt'' \<or> (k \<in> set member_fields \<and> truthy (getprop updateData k)))"

definition stored_form :: "string \<Rightarrow> jsval \<Rightarrow> jsval" where
  "stored_form k v =
     (case v of
        JStr s \<Rightarrow> if k = ''year'' then v
                  else if k = ''email'' then JStr (trim (toLowerCase s))
                  else JStr (trim s)
      | _ \<Rightarrow> v)"





section \<open>Reading the definitions\<close>

lemmas io_simps = bnd_def ret_def throw_def lift_def bindE_def

section \<open>The connection cache is idempotent\<close>

lemma connectToDatabase_eq: "connectToDatabase env uri = connectToMongoDB env uri"
  by (simp add: connectToDatabase_def connectToMongoDB_def)

lemma connect_call_eq: "connect_call env (c, uri) = connectToMongoDB env uri"
  by (cases c) (simp_all add: connect_call_def connectToDatabase_eq)

lemma connect_cached:
  "cached_conn w = Some h \<Longrightarrow> connectToMongoDB env uri w = (Inr h, w)"
  by (simp add: connectToMongoDB_def)

lemma connect_calls_cached:
  "cached_conn w = Some h \<Longrightarrow> connect_calls env cs w = (replicate (length cs) (Inr h), w)"
  by (induction cs) (auto simp: connect_call_eq connect_cached)

lemma connect_first:
  assumes "fresh_cache w" "mongoClientOk env uri" "connectOk env (clients_created w)"
  shows "connectToMongoDB env uri w =
     (Inr \<lparr>client = clients_created w, db = env_or (MONGODB_DB env) ''atomsmiths''\<rparr>,
      w\<lparr>cached_promise := Some (Inr \<lparr>client = clients_created w, db = env_or (MONGODB_DB env) ''atomsmiths''\<rparr>),
        clients_created := Suc (clients_created w),
        cached_conn := Some \<lparr>client = clients_created w, db = env_or (MONGODB_DB env) ''atomsmiths''\<rparr>\<rparr>)"
  using assms by (simp add: connectToMongoDB_def fresh_cache_def client_connect_def Let_def)

lemma connect_count_step:
  "connectToMongoDB env uri w = (r, w') \<Longrightarrow>
     (fresh_cache w \<longrightarrow> clients_created w' \<le> Suc (clients_created w)) \<and>
     (\<not> fresh_cache w \<longrightarrow> clients_created w' = clients_created w \<and> \<not> fresh_cache w') \<and>
     (clients_created w' = Suc (clients_created w) \<longrightarrow> \<not> fresh_cache w')"
  by (auto simp: connectToMongoDB_def fresh_cache_def Let_def split: option.splits sum.splits if_splits prod.splits)

lemma connect_calls_count:
  "connect_calls env cs w = (rs, w') \<Longrightarrow>
     clients_created w' \<le> (if fresh_cache w then Suc (clients_created w) else clients_created w)
     \<and> (\<not> fresh_cache w \<longrightarrow> clients_created w' = clients_created w)"
proof (induction cs arbitrary: w rs w')
  case Nil
  then show ?case by auto
next
  case (Cons c cs)
  obtain cl uri where c: "c = (cl, uri)" by (cases c)
  obtain r w1 where s: "connectToMongoDB env uri w = (r, w1)" by (cases "connectToMongoDB env uri w")
  obtain rs1 w2 where t: "connect_calls env cs w1 = (rs1, w2)" by (cases "connect_calls env cs w1")
  from Cons.prems c s t have e: "w' = w2" by (simp add: connect_call_eq)
  from connect_count_step[OF s] Cons.IH[OF t] e show ?case
    by (auto split: if_splits)
qed

lemma connect_result_cached:
  "connectToMongoDB env uri w = (Inr h, w') \<Longrightarrow> cached_conn w' = Some h"
  by (auto simp: connectToMongoDB_def Let_def split: option.splits sum.splits if_splits prod.splits)

lemma connect_calls_length:
  "connect_calls env cs w = (rs, w') \<Longrightarrow> length rs = length cs"
  by (induction cs arbitrary: w rs w') (auto split: prod.splits)

lemma connect_calls_stable:
  "connect_calls env cs w = (rs, w') \<Longrightarrow> i < j \<Longrightarrow> j < length rs \<Longrightarrow> rs ! i = Inr h \<Longrightarrow> rs ! j = Inr h"
proof (induction cs arbitrary: w rs w' i j)
  case Nil
  then show ?case by simp
next
  case (Cons c cs)
  obtain cl uri where c: "c = (cl, uri)" by (cases c)
  obtain r w1 where s: "connectToMongoDB env uri w = (r, w1)" by (cases "connectToMongoDB env uri w")
  obtain rs1 w2 where t: "connect_calls env cs w1 = (rs1, w2)" by (cases "connect_calls env cs w1")
  from Cons.prems(1) c s t have rs: "rs = r # rs1" by (simp add: connect_call_eq)
  from Cons.prems(2) obtain j' where j: "j = Suc j'" by (cases j) auto
  show ?case
  proof (cases i)
    case 0
    with Cons.prems(4) rs have "r = Inr h" by simp
    with s have "cached_conn w1 = Some h" by (simp add: connect_result_cached)
    from connect_calls_cached[OF this, of env cs] t have "rs1 = replicate (length cs) (Inr h)" by simp
    with rs j Cons.prems(3) show ?thesis by simp
  next
    case (Suc i')
    with Cons.prems rs j have "i' < j'" "j' < length rs1" "rs1 ! i' = Inr h" by auto
    from Cons.IH[OF t this] rs j show ?thesis by simp
  qed
qed

text \<open>
  Claim C7.  In a process that starts with an empty cache, take any sequence of calls of
  \<open>connectToMongoDB\<close> and \<open>connectToDatabase\<close>, one after the other, with any connection
  strings.  At most one \<open>MongoClient\<close> is constructed over the whole sequence, whatever the
  server does; once a call has returned a handle, every later call returns the same
  handle; and when the connection of the first call succeeds, that call constructs the
  one client and every call of the sequence returns the handle it made.
\<close>

theorem connection_cache_idempotent:
  assumes "fresh_cache w" and "connect_calls env ((c, uri) # cs) w = (rs, w')"
  shows "length rs = Suc (length cs) \<and>
         clients_created w' \<le> Suc (clients_created w) \<and>
         (\<forall>i j h. i < j \<and> j < length rs \<and> rs ! i = Inr h \<longrightarrow> rs ! j = Inr h) \<and>
         (mongoClientOk env uri \<and> connectOk env (clients_created w) \<longrightarrow>
            rs = replicate (Suc (length cs))
                   (Inr \<lparr>client = clients_created w, db = env_or (MONGODB_DB env) ''atomsmiths''\<rparr>) \<and>
            clients_created (snd (connect_call env (c, uri) w)) = Suc (clients_created w) \<and>
            clients_created w' = Suc (clients_created w))"
proof -
  have len: "length rs = Suc (length cs)"
    using connect_calls_length[OF assms(2)] by simp
  have cnt: "clients_created w' \<le> Suc (clients_created w)"
    using connect_calls_count[OF assms(2)] assms(1) by simp
  have stable: "\<forall>i j h. i < j \<and> j < length rs \<and> rs ! i = Inr h \<longrightarrow> rs ! j = Inr h"
    using connect_calls_stable[OF assms(2)] by blast
  have ok: "rs = replicate (Suc (length cs))
                   (Inr \<lparr>client = clients_created w, db = env_or (MONGODB_DB env) ''atomsmiths''\<rparr>) \<and>
            clients_created (snd (connect_call env (c, uri) w)) = Suc (clients_created w) \<and>
            clients_created w' = Suc (clients_created w)"
    if a: "mongoClientOk env uri" "connectOk env (clients_created w)"
  proof -
    let ?h = "\<lparr>client = clients_created w, db = env_or (MONGODB_DB env) ''atomsmiths''\<rparr>"
    obtain w1 where f: "connectToMongoDB env uri w = (Inr ?h, w1)"
      and n1: "clients_created w1 = Suc (clients_created w)"
      using connect_first[OF assms(1) a] by simp
    have c1: "cached_conn w1 = Some ?h" using connect_result_cached[OF f] .
    have rest: "connect_calls env cs w1 = (replicate (length cs) (Inr ?h), w1)"
      using connect_calls_cached[OF c1] .
    from assms(2) have "rs = Inr ?h # replicate (length cs) (Inr ?h)" "w' = w1"
      by (simp_all add: connect_call_eq f rest)
    then show ?thesis using n1 f by (simp add: connect_call_eq)
  qed
  from len cnt stable ok show ?thesis by blast
qed

text \<open>The sample environment, field by field.\<close>

lemma sample_env_simps:
  "DB_TYPE sample_env = None"
  "MONGODB_URI sample_env = Some ''mongodb://localhost:27017''"
  "MONGO_URI sample_env = Some ''mongodb://localhost:27017''"
  "MONGODB_DB sample_env = None"
  "NODE_ENV sample_env = None"
  "mongoClientOk sample_env uri = (uri \<noteq> None)"
  "connectOk sample_env n = True"
  "generateId sample_env n = 1000 + n"
  "clock sample_env n = 1700000000000 + int n"
  "dbType sample_env = ''mongodb''"
  "ObjectId sample_env v =
     (if v = JStr ''650000000000000000000001'' then Some 101
      else if v = JStr ''650000000000000000000002'' then Some 102
      else if v = JStr ''650000000000000000000021'' then Some 121 else None)"
  "Date_parse sample_env s =
     (if s = ''2020-01-01T00:00:00Z'' then Some 1577836800000
      else if s = ''2033-01-01T00:00:00Z'' then Some 1988150400000 else None)"
  "Number_parse sample_env s = None"
  "JSON_parse sample_env s = None"
  by (simp_all add: sample_env_def dbType_def env_or_def)

text \<open>Three calls in the sample environment: one client, one handle.\<close>

theorem connection_cache_idempotent_witness:
  "fresh_cache empty_world \<and>
   mongoClientOk sample_env (Some ''mongodb://a'') \<and> connectOk sample_env 0 \<and>
   fst (connect_calls sample_env
          [(Api, Some ''mongodb://a''), (Join, Some ''mongodb://b''), (Api, None)] empty_world)
     = [Inr \<lparr>client = 0, db = ''atomsmiths''\<rparr>, Inr \<lparr>client = 0, db = ''atomsmiths''\<rparr>,
        Inr \<lparr>client = 0, db = ''atomsmiths''\<rparr>] \<and>
   clients_created (snd (connect_calls sample_env
          [(Api, Some ''mongodb://a''), (Join, Some ''mongodb://b''), (Api, None)] empty_world)) = 1"
proof -
  let ?cs = "[(Api, Some ''mongodb://a''), (Join, Some ''mongodb://b''), (Api, None)]"
  have f: "fresh_cache empty_world" by (simp add: fresh_cache_def empty_world_def)
  obtain rs w' where r: "connect_calls sample_env ?cs empty_world = (rs, w')"
    by (cases "connect_calls sample_env ?cs empty_world")
  have z: "clients_created empty_world = 0" by (simp add: empty_world_def)
  from connection_cache_idempotent[OF f r]
  have "rs = [Inr \<lparr>client = 0, db = ''atomsmiths''\<rparr>, Inr \<lparr>client = 0, db = ''atomsmiths''\<rparr>,
        Inr \<lparr>client = 0, db = ''atomsmiths''\<rparr>]" "clients_created w' = 1"
    by (simp_all add: z sample_env_simps env_or_def)
  then show ?thesis using f r by (simp add: sample_env_simps)
qed

section \<open>The request router\<close>













section \<open>Collections and the connection\<close>

lemma connect_frame:
  "connectToMongoDB env uri w = (r, w') \<Longrightarrow>
     members w' = members w \<and> events w' = events w \<and> blogs w' = blogs w \<and>
     ids_generated w' = ids_generated w \<and> clock_reads w' = clock_reads w \<and>
     client_000 w' = client_000 w"
  by (auto simp: connectToMongoDB_def Let_def split: option.splits sum.splits if_splits prod.splits)

lemma reachableE:
  assumes "reachable env w"
  obtains c w1 where "connectToMongoDB env (MONGODB_URI env) w = (Inr c, w1)"
    "members w1 = members w" "events w1 = events w" "blogs w1 = blogs w"
    "ids_generated w1 = ids_generated w" "clock_reads w1 = clock_reads w"
proof -
  obtain r w1 where e: "connectToMongoDB env (MONGODB_URI env) w = (r, w1)"
    by (cases "connectToMongoDB env (MONGODB_URI env) w")
  with assms obtain c where "r = Inr c" by (auto simp: reachable_def split: sum.splits)
  with e connect_frame[OF e] that show ?thesis by blast
qed

lemma unreachable_connect:
  "\<not> reachable env w \<Longrightarrow> \<exists>e w1. connectToMongoDB env (MONGODB_URI env) w = (Inl e, w1)"
  by (cases "connectToMongoDB env (MONGODB_URI env) w") (auto simp: reachable_def split: sum.splits)

lemma get_put_coll [simp]:
  "members (put_coll Members ds w) = ds" "events (put_coll Members ds w) = events w"
  "blogs (put_coll Members ds w) = blogs w"
  "members (put_coll Events ds w) = members w" "events (put_coll Events ds w) = ds"
  "blogs (put_coll Events ds w) = blogs w"
  "members (put_coll Blogs ds w) = members w" "events (put_coll Blogs ds w) = events w"
  "blogs (put_coll Blogs ds w) = ds"
  "get_coll Members w = members w" "get_coll Events w = events w" "get_coll Blogs w = blogs w"
  by (simp_all add: put_coll_def get_coll_def)



section \<open>Deleting a member\<close>






lemma sample_world_simps:
  "members sample_world = [ann, bob]" "blogs sample_world = [ann_blog, bob_blog]"
  "events sample_world = [launch]" "cached_conn sample_world = None"
  "cached_promise sample_world = None" "clients_created sample_world = 0"
  "ids_generated sample_world = 0" "clock_reads sample_world = 0"
  "members empty_world = []" "blogs empty_world = []" "events empty_world = []"
  "cached_conn empty_world = None" "cached_promise empty_world = None"
  "clients_created empty_world = 0" "ids_generated empty_world = 0" "clock_reads empty_world = 0"
  by (simp_all add: sample_world_def empty_world_def)


lemma sample_ids:
  "id_is 101 ann" "\<not> id_is 102 ann" "id_is 102 bob" "\<not> id_is 101 bob"
  by (simp_all add: id_is_def fld_def ann_def bob_def)


section \<open>Adding an event\<close>

text \<open>The definitions that running a method of the service unfolds.\<close>

lemmas eval_simps =
  io_simps Let_def nullish_def getprop_def fld_def or_null_def opt_trim_def js_trim_def
  js_toLowerCase_def trim_def is_ws_def Date_now_def new_Date_def new_ObjectId_def
  connectToMongoDB_def connectToDatabase_def client_connect_def env_or_def insertOne_def
  findOne_def deleteOne_def deleteMany_def findOneAndUpdate_def id_is_def eq_match_def
  spread_if_def date_le_def js_Date_def timeClip_def
  sample_env_simps sample_world_simps

text \<open>
  Claim C3 fails on the code.  A text that is no date gives the \<open>Invalid Date\<close>, whose
  comparison with the current time is false either way, so the check for a date in the
  past lets it through: \<open>addEvent\<close> returns and the event is inserted with an \<open>eventDate\<close>
  that is not later than the current time.  The same happens for a number beyond the
  range of time values.
\<close>

theorem addEvent_accepts_invalid_date:
  "js_Date sample_env (JStr ''soon'') = None \<and>
   addEvent sample_env (JObj [(''title'', JStr ''Launch''), (''eventDate'', JStr ''soon'')]) empty_world =
     (Inr (JObj [(''title'', JStr ''Launch''), (''description'', JNull), (''eventDate'', JDate None),
                 (''location'', JNull), (''createdAt'', JDate (Some 1700000000001)),
                 (''updatedAt'', JDate (Some 1700000000002)), (''_id'', JOid 1000)]),
      empty_world\<lparr>cached_promise := Some (Inr \<lparr>client = 0, db = ''atomsmiths''\<rparr>),
                  clients_created := 1,
                  cached_conn := Some \<lparr>client = 0, db = ''atomsmiths''\<rparr>,
                  events := [[(''title'', JStr ''Launch''), (''description'', JNull), (''eventDate'', JDate None),
                       (''location'', JNull), (''createdAt'', JDate (Some 1700000000001)),
                       (''updatedAt'', JDate (Some 1700000000002)), (''_id'', JOid 1000)]],
                  ids_generated := 1, clock_reads := 3\<rparr>) \<and>
   js_Date sample_env (JNum 9000000000000000) = None \<and>
   map (\<lambda>d. fld d ''eventDate'')
     (events (snd (addEvent sample_env
        (JObj [(''title'', JStr ''Launch''), (''eventDate'', JNum 9000000000000000)]) empty_world)))
     = [JDate None]"
  by (simp add: addEvent_def eval_simps put_coll_def get_coll_def empty_world_def)

text \<open>The event stored for the text \<open>soon\<close> carries the \<open>Invalid Date\<close>.\<close>

theorem addEvent_accepts_invalid_date_witness:
  "map (\<lambda>d. fld d ''eventDate'')
     (events (snd (addEvent sample_env
        (JObj [(''title'', JStr ''Launch''), (''eventDate'', JStr ''soon'')]) empty_world))) = [JDate None]"
  using addEvent_accepts_invalid_date by (simp add: fld_def)

section \<open>Running a method step by step\<close>

lemma bnd_InrE:
  assumes "bnd m f w = (Inr r, w')"
  obtains x w1 where "m w = (Inr x, w1)" "f x w1 = (Inr r, w')"
  using assms by (auto simp: bnd_def split: prod.splits sum.splits)

lemma lift_InrD: "lift e w = (Inr x, w') \<Longrightarrow> e = Inr x \<and> w' = w"
  by (simp add: lift_def)

lemma ret_InrD: "ret y w = (Inr x, w') \<Longrightarrow> x = y \<and> w' = w"
  by (simp add: ret_def)

lemma bindE_InrE:
  assumes "bindE r f = Inr y"
  obtains x where "r = Inr x" "f x = Inr y"
  using assms by (auto simp: bindE_def split: sum.splits)

lemma js_trim_InrD: "js_trim v = Inr y \<Longrightarrow> \<exists>s. v = JStr s \<and> y = JStr (trim s)"
  by (auto simp: js_trim_def split: jsval.splits)

lemma js_toLowerCase_InrD: "js_toLowerCase v = Inr y \<Longrightarrow> \<exists>s. v = JStr s \<and> y = JStr (toLowerCase s)"
  by (auto simp: js_toLowerCase_def split: jsval.splits)

lemma new_Date_frame:
  "new_Date env w = (r, w') \<Longrightarrow>
     r = Inr (JDate (Some (clock env (clock_reads w)))) \<and> w' = w\<lparr>clock_reads := Suc (clock_reads w)\<rparr>"
  by (auto simp: new_Date_def Date_now_def io_simps)

lemma findOne_frame: "findOne c p w = (r, w') \<Longrightarrow> r = Inr (find p (get_coll c w)) \<and> w' = w"
  by (auto simp: findOne_def)

lemma fld_update: "fld (AList.update k v d) k' = (if k' = k then v else fld d k')"
  by (simp add: fld_def update_conv')

lemma insertOne_InrD:
  assumes "insertOne env c v w = (Inr stored, w')"
  shows "\<exists>d. v = JObj d \<and>
           stored = AList.update ''_id''
              (if nullish (fld d ''_id'') then JOid (generateId env (ids_generated w)) else fld d ''_id'') d \<and>
           members w' = (if c = Members then members w @ [stored] else members w) \<and>
           events w' = (if c = Events then events w @ [stored] else events w) \<and>
           blogs w' = (if c = Blogs then blogs w @ [stored] else blogs w)"
proof -
  from assms obtain d where v: "v = JObj d"
    by (cases v) (auto simp: insertOne_def)
  from assms v show ?thesis
    by (cases c) (auto simp: insertOne_def Let_def get_coll_def put_coll_def split: if_splits)
qed

section \<open>Registering a member\<close>




lemma trim_subset: "set (trim s) \<subseteq> set s"
  by (auto simp: trim_def dest!: set_dropWhileD)








section \<open>The two other ways to insert a member\<close>





section \<open>The email of a new member\<close>






section \<open>Adding an event or a blog\<close>


lemma new_ObjectId_InrD: "new_ObjectId env v = Inr oid \<Longrightarrow> ObjectId env v = Some oid"
  by (auto simp: new_ObjectId_def split: option.splits)

lemma opt_trim_InrD:
  "opt_trim v = Inr y \<Longrightarrow> (nullish v \<and> y = JUndefined) \<or> (\<exists>s. v = JStr s \<and> y = JStr (trim s))"
  by (auto simp: opt_trim_def dest: js_trim_InrD split: if_splits)

lemma fld_simps:
  "fld [] k = JUndefined"
  "fld ((k', v) # d) k = (if k' = k then v else fld d k)"
  by (simp_all add: fld_def)


lemma findOne_InrD: "findOne c p w = (Inr x, w') \<Longrightarrow> find p (get_coll c w) = x \<and> w' = w"
  by (auto simp: findOne_def)

lemma addBlog_created:
  assumes r: "addBlog env blogData w = (Inr res, w')" and db: "dbType env = ''mongodb''"
  shows "\<exists>t c oid author stored.
           getprop blogData ''title'' = JStr t \<and> t \<noteq> [] \<and>
           getprop blogData ''content'' = JStr c \<and> c \<noteq> [] \<and>
           truthy (getprop blogData ''authorId'') \<and>
           ObjectId env (getprop blogData ''authorId'') = Some oid \<and>
           find (id_is oid) (members w) = Some author \<and>
           stored =
             [(''title'', JStr (trim t)),
              (''content'', JStr (trim c)),
              (''authorId'', getprop blogData ''authorId''),
              (''authorName'', fld author ''name''),
              (''authorEmail'', fld author ''email''),
              (''authorDepartment'', fld author ''department''),
              (''createdAt'', JDate (Some (clock env (clock_reads w)))),
              (''updatedAt'', JDate (Some (clock env (Suc (clock_reads w))))),
              (''_id'', JOid (generateId env (ids_generated w)))] \<and>
           res = JObj stored \<and> blogs w' = blogs w @ [stored] \<and>
           members w' = members w \<and> events w' = events w"
  using r db
  apply (simp add: addBlog_def Let_def throw_def split: if_splits)
  apply (elim bnd_InrE)
  apply (auto simp: throw_def ret_def lift_def fld_simps nullish_def get_coll_def
      split: if_splits option.splits
      dest!: connect_frame findOne_InrD new_Date_frame insertOne_InrD js_trim_InrD new_ObjectId_InrD
      elim!: bnd_InrE)
  done


section \<open>Timestamps at creation\<close>




section \<open>The author of a blog\<close>

lemma addBlog_no_author:
  assumes db: "dbType env = ''mongodb''" and rc: "reachable env w"
    and t: "truthy (getprop blogData ''title'')" "truthy (getprop blogData ''content'')"
      "truthy (getprop blogData ''authorId'')"
    and oid: "ObjectId env (getprop blogData ''authorId'') = Some oid"
    and none: "\<forall>d \<in> set (members w). \<not> id_is oid d"
  shows "addBlog env blogData w =
           (Inl (Error ''Author not found''), snd (connectToMongoDB env (MONGODB_URI env) w))"
proof -
  from rc obtain c w1 where c: "connectToMongoDB env (MONGODB_URI env) w = (Inr c, w1)"
    and f: "members w1 = members w" by (rule reachableE)
  from t have nn: "\<not> nullish blogData"
    by (auto simp: nullish_def getprop_def)
  from none f have "find (id_is oid) (members w1) = None"
    by (simp add: find_None_iff)
  then show ?thesis using db nn t c oid
    by (simp add: addBlog_def Let_def io_simps findOne_def get_coll_def new_ObjectId_def)
qed

lemma addBlog_required:
  assumes "\<not> nullish blogData"
    and "\<not> truthy (getprop blogData ''title'') \<or> \<not> truthy (getprop blogData ''content'') \<or>
         \<not> truthy (getprop blogData ''authorId'')"
  shows "addBlog env blogData w = (Inl (Error ''Title, content, and author ID are required''), w)"
  using assms by (auto simp: addBlog_def Let_def throw_def)

text \<open>
  Claim C6, as amended.  When the title, the content and the author id are all supplied,
  the database is reachable, the author id is accepted as an \<open>ObjectId\<close> and no member has
  it, \<open>addBlog\<close> throws \<open>Author not found\<close> and stores nothing; when one of the three is
  missing it throws \<open>Title, content, and author ID are required\<close> before it looks for the
  author.  A blog that \<open>addBlog\<close> creates carries the \<open>authorId\<close> as it was given, and as
  \<open>authorName\<close>, \<open>authorEmail\<close> and \<open>authorDepartment\<close> the name, the email and the department
  of the member with that id as stored when the call was made.
\<close>

theorem addBlog_author_snapshot:
  "(dbType env = ''mongodb'' \<and> reachable env w \<and>
    truthy (getprop blogData ''title'') \<and> truthy (getprop blogData ''content'') \<and>
    truthy (getprop blogData ''authorId'') \<and>
    ObjectId env (getprop blogData ''authorId'') = Some oid \<and>
    (\<forall>d \<in> set (members w). \<not> id_is oid d) \<longrightarrow>
      fst (addBlog env blogData w) = Inl (Error ''Author not found'') \<and>
      blogs (snd (addBlog env blogData w)) = blogs w \<and>
      members (snd (addBlog env blogData w)) = members w) \<and>
   (\<not> nullish blogData \<and>
    (\<not> truthy (getprop blogData ''title'') \<or> \<not> truthy (getprop blogData ''content'') \<or>
     \<not> truthy (getprop blogData ''authorId'')) \<longrightarrow>
      addBlog env blogData w = (Inl (Error ''Title, content, and author ID are required''), w)) \<and>
   (dbType env = ''mongodb'' \<and> addBlog env blogData w = (Inr res, w') \<longrightarrow>
      (\<exists>a author stored.
         ObjectId env (getprop blogData ''authorId'') = Some a \<and>
         find (id_is a) (members w) = Some author \<and>
         res = JObj stored \<and> blogs w' = blogs w @ [stored] \<and>
         fld stored ''authorId'' = getprop blogData ''authorId'' \<and>
         fld stored ''authorName'' = fld author ''name'' \<and>
         fld stored ''authorEmail'' = fld author ''email'' \<and>
         fld stored ''authorDepartment'' = fld author ''department''))"
proof (intro conjI impI)
  assume a: "dbType env = ''mongodb'' \<and> reachable env w \<and>
    truthy (getprop blogData ''title'') \<and> truthy (getprop blogData ''content'') \<and>
    truthy (getprop blogData ''authorId'') \<and>
    ObjectId env (getprop blogData ''authorId'') = Some oid \<and>
    (\<forall>d \<in> set (members w). \<not> id_is oid d)"
  then have r: "addBlog env blogData w =
           (Inl (Error ''Author not found''), snd (connectToMongoDB env (MONGODB_URI env) w))"
    by (intro addBlog_no_author) blast+
  show "fst (addBlog env blogData w) = Inl (Error ''Author not found'')" by (simp add: r)
  show "blogs (snd (addBlog env blogData w)) = blogs w"
    using connect_frame[of env "MONGODB_URI env" w] by (simp add: r prod_eq_iff)
  show "members (snd (addBlog env blogData w)) = members w"
    using connect_frame[of env "MONGODB_URI env" w] by (simp add: r prod_eq_iff)
next
  assume "\<not> nullish blogData \<and>
    (\<not> truthy (getprop blogData ''title'') \<or> \<not> truthy (getprop blogData ''content'') \<or>
     \<not> truthy (getprop blogData ''authorId''))"
  then show "addBlog env blogData w = (Inl (Error ''Title, content, and author ID are required''), w)"
    by (intro addBlog_required) blast+
next
  assume "dbType env = ''mongodb'' \<and> addBlog env blogData w = (Inr res, w')"
  with addBlog_created[of env blogData w res w']
  show "\<exists>a author stored.
         ObjectId env (getprop blogData ''authorId'') = Some a \<and>
         find (id_is a) (members w) = Some author \<and>
         res = JObj stored \<and> blogs w' = blogs w @ [stored] \<and>
         fld stored ''authorId'' = getprop blogData ''authorId'' \<and>
         fld stored ''authorName'' = fld author ''name'' \<and>
         fld stored ''authorEmail'' = fld author ''email'' \<and>
         fld stored ''authorDepartment'' = fld author ''department''"
    by (auto simp: fld_simps)
qed

text \<open>Claim C6 as stated fails: in a database whose only member is Ann no member has the
  id \<open>102\<close>, and a blog without a title for the author with that id is refused for the
  missing title, not for the missing author.\<close>

theorem addBlog_author_counterexample:
  "ObjectId sample_env (JStr ''650000000000000000000002'') = Some 102 \<and>
   list_all (\<lambda>d. \<not> id_is 102 d) (members (sample_world\<lparr>members := [ann]\<rparr>)) \<and>
   fst (addBlog sample_env
      (JObj [(''content'', JStr ''Hot.''), (''authorId'', JStr ''650000000000000000000002'')])
      (sample_world\<lparr>members := [ann]\<rparr>)) = Inl (Error ''Title, content, and author ID are required'')"
  by (simp add: addBlog_def eval_simps ann_def)

text \<open>A blog of Ann's in the sample database carries her name, email and department.\<close>

theorem addBlog_author_snapshot_witness:
  "dbType sample_env = ''mongodb'' \<and>
   (\<exists>res w'. addBlog sample_env
      (JObj [(''title'', JStr ''Quarks''), (''content'', JStr ''Up and down.''),
             (''authorId'', JStr ''650000000000000000000001'')]) sample_world = (Inr res, w')) \<and>
   map (\<lambda>d. (fld d ''authorId'', fld d ''authorName'', fld d ''authorEmail'', fld d ''authorDepartment''))
     (drop 2 (blogs (snd (addBlog sample_env
      (JObj [(''title'', JStr ''Quarks''), (''content'', JStr ''Up and down.''),
             (''authorId'', JStr ''650000000000000000000001'')]) sample_world))))
     = [(JStr ''650000000000000000000001'', JStr ''Ann'', JStr ''ann@example.com'', JStr ''Physics'')]"
proof -
  let ?d = "JObj [(''title'', JStr ''Quarks''), (''content'', JStr ''Up and down.''),
             (''authorId'', JStr ''650000000000000000000001'')]"
  have "\<exists>res w'. addBlog sample_env ?d sample_world = (Inr res, w')"
    by (simp add: addBlog_def eval_simps put_coll_def get_coll_def ann_def bob_def ann_blog_def bob_blog_def)
  then obtain res w' where r: "addBlog sample_env ?d sample_world = (Inr res, w')" by blast
  have "dbType sample_env = ''mongodb'' \<and> addBlog sample_env ?d sample_world = (Inr res, w')"
    using r by (simp add: sample_env_simps)
  from addBlog_author_snapshot[THEN conjunct2, THEN conjunct2, rule_format, OF this]
  obtain a author stored where h: "ObjectId sample_env (getprop ?d ''authorId'') = Some a"
    "find (id_is a) (members sample_world) = Some author"
    "blogs w' = blogs sample_world @ [stored]"
    "fld stored ''authorId'' = getprop ?d ''authorId''"
    "fld stored ''authorName'' = fld author ''name''"
    "fld stored ''authorEmail'' = fld author ''email''"
    "fld stored ''authorDepartment'' = fld author ''department''"
    by blast
  from h(1) have a: "a = 101" by (simp add: getprop_def fld_simps sample_env_simps)
  from h(2) have "author = ann" by (simp add: a sample_world_simps sample_ids)
  with h have "blogs w' = [ann_blog, bob_blog, stored]"
    "fld stored ''authorId'' = JStr ''650000000000000000000001''"
    "fld stored ''authorName'' = JStr ''Ann''"
    "fld stored ''authorEmail'' = JStr ''ann@example.com''"
    "fld stored ''authorDepartment'' = JStr ''Physics''"
    by (simp_all add: sample_world_simps getprop_def fld_simps ann_def)
  with r show ?thesis by (simp add: sample_env_simps)
qed

section \<open>Updating a document\<close>

lemma bnd_E:
  assumes "bnd m f w = (r, w')"
  obtains e where "m w = (Inl e, w')" "r = Inl e"
  | x w1 where "m w = (Inr x, w1)" "f x w1 = (r, w')"
  using assms by (auto simp: bnd_def split: prod.splits sum.splits)

lemma lift_D: "lift e w = (r, w') \<Longrightarrow> r = e \<and> w' = w"
  by (simp add: lift_def)

lemma throw_D: "throw e w = (r, w') \<Longrightarrow> r = Inl e \<and> w' = w"
  by (simp add: throw_def)

lemma ret_D: "ret x w = (r, w') \<Longrightarrow> r = Inr x \<and> w' = w"
  by (simp add: ret_def)

lemma set_fields_other:
  "k \<notin> fst ` set upd \<Longrightarrow> fld (set_fields upd d) k = fld d k"
  by (induction upd d rule: set_fields.induct) (auto simp: fld_update)

lemma set_fields_key:
  "distinct (map fst upd) \<Longrightarrow> (k, v) \<in> set upd \<Longrightarrow> fld (set_fields upd d) k = v"
proof (induction upd d rule: set_fields.induct)
  case (1 d)
  then show ?case by simp
next
  case (2 k' v' kvs d)
  show ?case
  proof (cases "(k, v) \<in> set kvs")
    case True
    with 2 show ?thesis by simp
  next
    case False
    with 2 have e: "k' = k" "v' = v" "k \<notin> fst ` set kvs" by auto
    then show ?thesis by (simp add: set_fields_other fld_update)
  qed
qed

lemma update_first_length:
  "update_first p f ds = (r, ds') \<Longrightarrow> length ds' = length ds"
  by (induction ds arbitrary: r ds') (auto split: if_splits prod.splits)

lemma update_first_nth:
  "update_first p f ds = (r, ds') \<Longrightarrow> i < length ds \<Longrightarrow> ds' ! i = ds ! i \<or> ds' ! i = f (ds ! i)"
proof (induction ds arbitrary: r ds' i)
  case Nil
  then show ?case by simp
next
  case (Cons a ds)
  show ?case
  proof (cases "p a")
    case True
    with Cons.prems show ?thesis by (cases i) auto
  next
    case False
    obtain r1 ds1 where u: "update_first p f ds = (r1, ds1)" by (cases "update_first p f ds")
    with False Cons.prems have e: "ds' = a # ds1" by simp
    show ?thesis
    proof (cases i)
      case 0
      with e show ?thesis by simp
    next
      case (Suc j)
      with Cons.prems have "j < length ds" by simp
      from Cons.IH[OF u this] e Suc show ?thesis by simp
    qed
  qed
qed

lemma update_first_none:
  "\<forall>x \<in> set ds. \<not> p x \<Longrightarrow> update_first p f ds = (None, ds)"
  by (induction ds) auto

lemma update_first_some:
  "\<exists>x \<in> set ds. p x \<Longrightarrow>
     \<exists>pre d post. ds = pre @ d # post \<and> p d \<and> (\<forall>x \<in> set pre. \<not> p x) \<and>
        update_first p f ds = (Some (f d), pre @ f d # post)"
proof (induction ds)
  case Nil
  then show ?case by simp
next
  case (Cons a ds)
  show ?case
  proof (cases "p a")
    case True
    then have "a # ds = [] @ a # ds \<and> p a \<and> (\<forall>x \<in> set []. \<not> p x) \<and>
        update_first p f (a # ds) = (Some (f a), [] @ f a # ds)" by simp
    then show ?thesis by blast
  next
    case False
    with Cons.prems have "\<exists>x \<in> set ds. p x" by auto
    from Cons.IH[OF this] obtain pre d post where
      h: "ds = pre @ d # post" "p d" "\<forall>x \<in> set pre. \<not> p x"
         "update_first p f ds = (Some (f d), pre @ f d # post)" by blast
    with False have "a # ds = (a # pre) @ d # post \<and> p d \<and> (\<forall>x \<in> set (a # pre). \<not> p x) \<and>
        update_first p f (a # ds) = (Some (f d), (a # pre) @ f d # post)" by simp
    then show ?thesis by blast
  qed
qed

lemma update_first_result:
  "update_first p f ds = (Some d', ds') \<Longrightarrow>
     \<exists>pre d post. ds = pre @ d # post \<and> p d \<and> (\<forall>x \<in> set pre. \<not> p x) \<and> d' = f d \<and>
        ds' = pre @ f d # post"
proof -
  assume u: "update_first p f ds = (Some d', ds')"
  have "\<exists>x \<in> set ds. p x"
  proof (rule ccontr)
    assume "\<not> (\<exists>x \<in> set ds. p x)"
    then have "update_first p f ds = (None, ds)" by (intro update_first_none) blast
    with u show False by simp
  qed
  from update_first_some[OF this, of f] u show ?thesis by auto
qed

lemma findOneAndUpdate_D:
  "findOneAndUpdate c p upd w = (r, w') \<Longrightarrow>
     \<exists>x ds. r = Inr x \<and> update_first p (set_fields upd) (get_coll c w) = (x, ds) \<and>
       w' = put_coll c ds w"
  by (auto simp: findOneAndUpdate_def split: prod.splits)

lemma spread_if_D:
  "spread_if x key f = Inr l \<Longrightarrow>
     (\<not> truthy x \<and> l = []) \<or> (truthy x \<and> (\<exists>y. f x = Inr y \<and> l = [(key, y)]))"
  by (auto simp: spread_if_def bindE_def split: if_splits sum.splits)


lemma update_first_None_D: "update_first p f ds = (None, ds') \<Longrightarrow> ds' = ds"
  by (induction ds arbitrary: ds') (auto split: if_splits prod.splits)

lemma updateMember_other_db:
  "dbType env \<noteq> ''mongodb'' \<Longrightarrow> updateMember env memberId updateData w = (r, w') \<Longrightarrow> w' = w"
  by (auto simp: updateMember_def Let_def not_enabled_def io_simps split: if_splits)

lemma updateMember_failed:
  assumes "updateMember env memberId updateData w = (Inl e, w')"
  shows "members w' = members w \<and> events w' = events w \<and> blogs w' = blogs w"
  using assms
  apply (simp add: updateMember_def Let_def not_enabled_def split: if_splits)
     apply (auto simp: get_coll_def
      dest!: throw_D ret_D lift_D connect_frame findOne_frame new_Date_frame findOneAndUpdate_D
        update_first_None_D
      elim!: bnd_E split: if_splits option.splits)
  done

lemma updateMember_updated:
  assumes "updateMember env memberId updateData w = (Inr res, w')" and "dbType env = ''mongodb''"
  shows "\<exists>oid f1 f2 f3 f4 f5 d'.
          ObjectId env memberId = Some oid \<and>
          spread_if (getprop updateData ''name'') ''name'' js_trim = Inr f1 \<and>
          spread_if (getprop updateData ''email'') ''email'' (\<lambda>x. bindE (js_toLowerCase x) js_trim) = Inr f2 \<and>
          spread_if (getprop updateData ''department'') ''department'' js_trim = Inr f3 \<and>
          spread_if (getprop updateData ''year'') ''year'' Inr = Inr f4 \<and>
          spread_if (getprop updateData ''interests'') ''interests'' js_trim = Inr f5 \<and>
          update_first (id_is oid)
            (set_fields (f1 @ f2 @ f3 @ f4 @ f5 @
               [(''updatedAt'', JDate (Some (clock env (clock_reads w))))])) (members w)
            = (Some d', members w') \<and>
          res = JObj d' \<and> events w' = events w \<and> blogs w' = blogs w"
  using assms
  apply (simp add: updateMember_def Let_def throw_def split: if_splits)
  apply (auto simp: get_coll_def throw_def
      dest!: ret_InrD lift_InrD connect_frame findOne_frame new_Date_frame findOneAndUpdate_D
        new_ObjectId_InrD
      elim!: bnd_InrE split: if_splits option.splits)
  done


lemma spread_if_keys:
  "spread_if x key f = Inr l \<Longrightarrow> map fst l = (if truthy x then [key] else [])"
  by (auto dest: spread_if_D)

lemma spread_if_mem:
  "spread_if x key f = Inr l \<Longrightarrow> truthy x \<Longrightarrow> \<exists>y. f x = Inr y \<and> (key, y) \<in> set l"
  by (auto dest: spread_if_D)

lemma trim_stored: "js_trim v = Inr y \<Longrightarrow> k \<noteq> ''year'' \<Longrightarrow> k \<noteq> ''email'' \<Longrightarrow> y = stored_form k v"
  by (auto simp: stored_form_def dest: js_trim_InrD)

lemma email_stored: "bindE (js_toLowerCase v) js_trim = Inr y \<Longrightarrow> y = stored_form ''email'' v"
  by (auto simp: stored_form_def dest!: js_toLowerCase_InrD js_trim_InrD elim!: bindE_InrE)

lemma year_stored: "stored_form ''year'' v = v"
  by (cases v) (simp_all add: stored_form_def)


section \<open>What updating a member changes\<close>

text \<open>
  Claim C8.  Whatever \<open>updateMember\<close> is called with and however the call ends, the
  events and the blogs stay as they are, no member is added or removed, and in every
  member every field keeps its value unless it is \<open>updatedAt\<close> or one of \<open>name\<close>, \<open>email\<close>,
  \<open>department\<close>, \<open>year\<close>, \<open>interests\<close> with a truthy value in \<open>updateData\<close>.  When the call
  returns, the first member with the given id is the one that was updated and returned,
  the members before and after it are unchanged, its \<open>updatedAt\<close> is the reading of the
  clock, and each of the five fields with a truthy value in \<open>updateData\<close> holds that value
  in its stored form (trimmed; the email also in lower case; the year as given).
\<close>

theorem updateMember_frame:
  assumes u: "updateMember env memberId updateData w = (r, w')"
  shows "events w' = events w \<and> blogs w' = blogs w \<and> length (members w') = length (members w) \<and>
     (\<forall>i < length (members w). \<forall>k. \<not> may_change updateData k \<longrightarrow>
        fld (members w' ! i) k = fld (members w ! i) k) \<and>
     (\<forall>res. dbType env = ''mongodb'' \<and> r = Inr res \<longrightarrow>
        (\<exists>oid pre d post d'.
           ObjectId env memberId = Some oid \<and> members w = pre @ d # post \<and> id_is oid d \<and>
           (\<forall>x \<in> set pre. \<not> id_is oid x) \<and> members w' = pre @ d' # post \<and> res = JObj d' \<and>
           fld d' ''updatedAt'' = JDate (Some (clock env (clock_reads w))) \<and>
           (\<forall>k \<in> set member_fields. truthy (getprop updateData k) \<longrightarrow>
              fld d' k = stored_form k (getprop updateData k))))"
proof (cases "dbType env = ''mongodb'' \<and> (\<exists>res. r = Inr res)")
  case False
  have "members w' = members w \<and> events w' = events w \<and> blogs w' = blogs w"
  proof (cases r)
    case (Inl e)
    with u updateMember_failed[of env memberId updateData w e w'] show ?thesis by simp
  next
    case (Inr res)
    with False have "dbType env \<noteq> ''mongodb''" by simp
    from updateMember_other_db[OF this u] show ?thesis by simp
  qed
  with False show ?thesis by auto
next
  case True
  then obtain res where res: "r = Inr res" and db: "dbType env = ''mongodb''" by blast
  from updateMember_updated[OF u[unfolded res] db]
  obtain oid f1 f2 f3 f4 f5 d' where
    oid: "ObjectId env memberId = Some oid"
    and f1: "spread_if (getprop updateData ''name'') ''name'' js_trim = Inr f1"
    and f2: "spread_if (getprop updateData ''email'') ''email'' (\<lambda>x. bindE (js_toLowerCase x) js_trim) = Inr f2"
    and f3: "spread_if (getprop updateData ''department'') ''department'' js_trim = Inr f3"
    and f4: "spread_if (getprop updateData ''year'') ''year'' Inr = Inr f4"
    and f5: "spread_if (getprop updateData ''interests'') ''interests'' js_trim = Inr f5"
    and up: "update_first (id_is oid)
            (set_fields (f1 @ f2 @ f3 @ f4 @ f5 @
               [(''updatedAt'', JDate (Some (clock env (clock_reads w))))])) (members w)
            = (Some d', members w')"
    and rest: "res = JObj d'" "events w' = events w" "blogs w' = blogs w"
    by blast
  let ?upd = "f1 @ f2 @ f3 @ f4 @ f5 @ [(''updatedAt'', JDate (Some (clock env (clock_reads w))))]"
  have keys: "map fst ?upd =
      (if truthy (getprop updateData ''name'') then [''name''] else []) @
      (if truthy (getprop updateData ''email'') then [''email''] else []) @
      (if truthy (getprop updateData ''department'') then [''department''] else []) @
      (if truthy (getprop updateData ''year'') then [''year''] else []) @
      (if truthy (getprop updateData ''interests'') then [''interests''] else []) @ [''updatedAt'']"
    using spread_if_keys[OF f1] spread_if_keys[OF f2] spread_if_keys[OF f3]
      spread_if_keys[OF f4] spread_if_keys[OF f5] by simp
  have dist: "distinct (map fst ?upd)" unfolding keys by simp
  have sub: "k \<notin> fst ` set ?upd" if "\<not> may_change updateData k" for k
  proof -
    have "k \<notin> set (map fst ?upd)"
      using that unfolding keys by (auto simp: may_change_def member_fields_def)
    then show ?thesis unfolding set_map by blast
  qed
  have len: "length (members w') = length (members w)"
    using update_first_length[OF up] .
  have frame: "fld (members w' ! i) k = fld (members w ! i) k"
    if "i < length (members w)" "\<not> may_change updateData k" for i k
    using update_first_nth[OF up that(1)] set_fields_other[OF sub[OF that(2)]] by auto
  from update_first_result[OF up] obtain pre d post where
    p: "members w = pre @ d # post" "id_is oid d" "\<forall>x \<in> set pre. \<not> id_is oid x"
       "d' = set_fields ?upd d" "members w' = pre @ set_fields ?upd d # post" by blast
  have upd_at: "fld d' ''updatedAt'' = JDate (Some (clock env (clock_reads w)))"
    unfolding p(4) by (rule set_fields_key[OF dist]) simp
  have mem: "(k, stored_form k (getprop updateData k)) \<in> set ?upd"
    if k: "k \<in> set member_fields" and t: "truthy (getprop updateData k)" for k
  proof -
    from k consider "k = ''name''" | "k = ''email''" | "k = ''department''" | "k = ''year''"
      | "k = ''interests''" by (auto simp: member_fields_def)
    then show ?thesis
    proof cases
      case 1
      with t spread_if_mem[OF f1] obtain y where "js_trim (getprop updateData ''name'') = Inr y"
        "(''name'', y) \<in> set f1" by blast
      with 1 trim_stored[of "getprop updateData ''name''" y "''name''"] show ?thesis by simp
    next
      case 2
      with t spread_if_mem[OF f2] obtain y where
        "bindE (js_toLowerCase (getprop updateData ''email'')) js_trim = Inr y"
        "(''email'', y) \<in> set f2" by blast
      with 2 email_stored[of "getprop updateData ''email''" y] show ?thesis by simp
    next
      case 3
      with t spread_if_mem[OF f3] obtain y where "js_trim (getprop updateData ''department'') = Inr y"
        "(''department'', y) \<in> set f3" by blast
      with 3 trim_stored[of "getprop updateData ''department''" y "''department''"] show ?thesis by simp
    next
      case 4
      with t spread_if_mem[OF f4] have "(''year'', getprop updateData ''year'') \<in> set f4" by auto
      with 4 show ?thesis by (simp add: year_stored)
    next
      case 5
      with t spread_if_mem[OF f5] obtain y where "js_trim (getprop updateData ''interests'') = Inr y"
        "(''interests'', y) \<in> set f5" by blast
      with 5 trim_stored[of "getprop updateData ''interests''" y "''interests''"] show ?thesis by simp
    qed
  qed
  have val: "fld d' k = stored_form k (getprop updateData k)"
    if k: "k \<in> set member_fields" and t: "truthy (getprop updateData k)" for k
    unfolding p(4) using set_fields_key[OF dist mem[OF k t]] .
  have pos: "\<exists>oid pre d post d'.
           ObjectId env memberId = Some oid \<and> members w = pre @ d # post \<and> id_is oid d \<and>
           (\<forall>x \<in> set pre. \<not> id_is oid x) \<and> members w' = pre @ d' # post \<and> res = JObj d' \<and>
           fld d' ''updatedAt'' = JDate (Some (clock env (clock_reads w))) \<and>
           (\<forall>k \<in> set member_fields. truthy (getprop updateData k) \<longrightarrow>
              fld d' k = stored_form k (getprop updateData k))"
    using oid p rest(1) upd_at val by blast
  show ?thesis
  proof (intro conjI allI impI)
    show "events w' = events w" "blogs w' = blogs w" "length (members w') = length (members w)"
      using rest len by simp_all
  next
    fix i k assume "i < length (members w)" "\<not> may_change updateData k"
    then show "fld (members w' ! i) k = fld (members w ! i) k" by (rule frame)
  next
    fix res' assume "dbType env = ''mongodb'' \<and> r = Inr res'"
    with res have "res' = res" by simp
    with pos show "\<exists>oid pre d post d'.
           ObjectId env memberId = Some oid \<and> members w = pre @ d # post \<and> id_is oid d \<and>
           (\<forall>x \<in> set pre. \<not> id_is oid x) \<and> members w' = pre @ d' # post \<and> res' = JObj d' \<and>
           fld d' ''updatedAt'' = JDate (Some (clock env (clock_reads w))) \<and>
           (\<forall>k \<in> set member_fields. truthy (getprop updateData k) \<longrightarrow>
              fld d' k = stored_form k (getprop updateData k))" by simp
  qed
qed


text \<open>Renaming Ann in the sample database, with an empty email in the update: the call
  returns, and both members keep their emails.\<close>

theorem updateMember_frame_witness:
  "\<not> may_change (JObj [(''name'', JStr '' Anna ''), (''email'', JStr [])]) ''email'' \<and>
   (\<exists>res w'. updateMember sample_env (JStr ''650000000000000000000001'')
      (JObj [(''name'', JStr '' Anna ''), (''email'', JStr [])]) sample_world = (Inr res, w')) \<and>
   length (members (snd (updateMember sample_env (JStr ''650000000000000000000001'')
      (JObj [(''name'', JStr '' Anna ''), (''email'', JStr [])]) sample_world))) = 2 \<and>
   fld (members (snd (updateMember sample_env (JStr ''650000000000000000000001'')
      (JObj [(''name'', JStr '' Anna ''), (''email'', JStr [])]) sample_world)) ! 0) ''email''
     = JStr ''ann@example.com'' \<and>
   fld (members (snd (updateMember sample_env (JStr ''650000000000000000000001'')
      (JObj [(''name'', JStr '' Anna ''), (''email'', JStr [])]) sample_world)) ! 1) ''email''
     = JStr ''bob@example.com''"
proof -
  let ?d = "JObj [(''name'', JStr '' Anna ''), (''email'', JStr [])]"
  let ?i = "JStr ''650000000000000000000001''"
  have nc: "\<not> may_change ?d ''email''"
    by (simp add: may_change_def member_fields_def getprop_def fld_simps)
  have "\<exists>res w'. updateMember sample_env ?i ?d sample_world = (Inr res, w')"
    by (simp add: updateMember_def eval_simps put_coll_def get_coll_def ann_def bob_def)
  then obtain res w' where r: "updateMember sample_env ?i ?d sample_world = (Inr res, w')" by blast
  from updateMember_frame[OF r]
  have "length (members w') = length (members sample_world)"
    "\<forall>i < length (members sample_world). \<forall>k. \<not> may_change ?d k \<longrightarrow>
        fld (members w' ! i) k = fld (members sample_world ! i) k" by blast+
  with nc have "length (members w') = 2"
    "fld (members w' ! 0) ''email'' = fld ann ''email''"
    "fld (members w' ! 1) ''email'' = fld bob ''email''"
    by (simp_all add: sample_world_simps)
  then show ?thesis using r nc by (simp add: fld_simps ann_def bob_def)
qed

section \<open>Updating an event\<close>











section \<open>Sorting\<close>











section \<open>Recent activity\<close>






















end
